theory Spec2Isabelle
  imports Complex_Main "HOL-Library.Sublist"
begin

section \<open>Python values used by the order validation library\<close>

text \<open>
  A Python \<open>str\<close> is a sequence of Unicode code points, so a string is a list of
  code points (natural numbers), not a list of bytes. String literals of the source are
  ASCII and are written through \<open>ustr\<close>.
\<close>

type_synonym ustring = "nat list"

definition ustr :: "string \<Rightarrow> ustring" where
  "ustr s = map of_char s"

text \<open>
  Numbers are exact: quantities and ages are Python integers, prices and amounts are
  real numbers. Binary floating point (rounding error, infinities, NaN, overflow on
  conversion) is outside this model.
\<close>

text \<open>\<open>str(n)\<close> of an integer, as an f-string renders it.\<close>

fun digits_nat :: "nat \<Rightarrow> ustring" where
  "digits_nat n = (if n < 10 then [48 + n] else digits_nat (n div 10) @ [48 + n mod 10])"

definition py_str_int :: "int \<Rightarrow> ustring" where
  "py_str_int i = (if i < 0 then 45 # digits_nat (nat (- i)) else digits_nat (nat i))"

text \<open>
  The builtin \<open>round(x, ndigits)\<close> on an exact number: scale by \<open>10 ^ ndigits\<close>, round
  to the nearest integer with ties going to the even neighbour, scale back.
\<close>

definition round_half_even :: "real \<Rightarrow> int" where
  "round_half_even x =
     (let f = \<lfloor>x\<rfloor>; d = x - of_int f
      in if d < 1 / 2 then f else if d > 1 / 2 then f + 1 else if even f then f else f + 1)"

definition py_round :: "real \<Rightarrow> nat \<Rightarrow> real" where
  "py_round x ndigits = of_int (round_half_even (x * 10 ^ ndigits)) / 10 ^ ndigits"


section \<open>elt\_functions.py: field validators\<close>

text \<open>
  A validator returns the pair \<open>(is_valid, message)\<close>. An argument that the source
  tests with \<open>is None\<close> or \<open>not x\<close> is an option: \<open>None\<close> is Python's \<open>None\<close>.
\<close>

definition check_order_id :: "ustring option \<Rightarrow> bool \<times> ustring" where
  "check_order_id order_id =
     (case order_id of
        None \<Rightarrow> (False, ustr ''Order ID is empty'')
      | Some s \<Rightarrow>
          if s = [] then (False, ustr ''Order ID is empty'')
          else if \<not> prefix (ustr ''ORD-'') s then (False, ustr ''Order ID must start with ORD-'')
          else (True, ustr ''Valid''))"


definition check_quantity :: "int option \<Rightarrow> int \<Rightarrow> bool \<times> ustring" where
  "check_quantity quantity max_allowed =
     (case quantity of
        None \<Rightarrow> (False, ustr ''Quantity is missing'')
      | Some q \<Rightarrow>
          if q \<le> 0 then (False, ustr ''Quantity must be positive'')
          else if q > max_allowed then
            (False, ustr ''Quantity too high (max: '' @ py_str_int max_allowed @ ustr '')'')
          else (True, ustr ''Valid''))"

text \<open>
  Prices are not integers; how the number type in use prints itself inside the
  f-string is the parameter \<open>fmt\<close>.
\<close>

definition check_price :: "(real \<Rightarrow> ustring) \<Rightarrow> real option \<Rightarrow> real \<Rightarrow> real \<Rightarrow> bool \<times> ustring" where
  "check_price fmt price min_price max_price =
     (case price of
        None \<Rightarrow> (False, ustr ''Price is missing'')
      | Some p \<Rightarrow>
          if p < min_price then
            (False, ustr ''Price too low (min: $'' @ fmt min_price @ ustr '')'')
          else if p > max_price then
            (False, ustr ''Price too high (max: $'' @ fmt max_price @ ustr '')'')
          else (True, ustr ''Valid''))"

definition check_age :: "int option \<Rightarrow> int \<Rightarrow> int \<Rightarrow> bool \<times> ustring" where
  "check_age age min_age max_age =
     (case age of
        None \<Rightarrow> (False, ustr ''Age is missing'')
      | Some a \<Rightarrow>
          if a < min_age then
            (False, ustr ''Customer too young (min: '' @ py_str_int min_age @ ustr '')'')
          else if a > max_age then
            (False, ustr ''Age unrealistic (max: '' @ py_str_int max_age @ ustr '')'')
          else (True, ustr ''Valid''))"

section \<open>elt\_functions.py: derived computations\<close>


definition calculate_tax :: "real \<Rightarrow> real" where
  "calculate_tax total_amount = py_round (total_amount * (10 / 100)) 2"

definition get_order_category :: "real \<Rightarrow> ustring" where
  "get_order_category total_amount =
     (if total_amount \<ge> 1000 then ustr ''HIGH''
      else if total_amount \<ge> 500 then ustr ''MEDIUM''
      else if total_amount > 0 then ustr ''LOW''
      else ustr ''INVALID'')"

section \<open>data\_transformations.py\<close>



section \<open>Python string methods\<close>

text \<open>
  \<open>str.strip()\<close> without arguments removes leading and trailing whitespace, where
  whitespace is what \<open>str.isspace\<close> accepts: the code points U+0009 to U+000D,
  U+001C to U+0020, U+0085, U+00A0, U+1680, U+2000 to U+200A, U+2028, U+2029, U+202F,
  U+205F and U+3000.
\<close>

definition py_isspace :: "nat \<Rightarrow> bool" where
  "py_isspace c =
     ((9 \<le> c \<and> c \<le> 13) \<or> (28 \<le> c \<and> c \<le> 32) \<or> c = 133 \<or> c = 160 \<or> c = 5760
      \<or> (8192 \<le> c \<and> c \<le> 8202) \<or> c = 8232 \<or> c = 8233 \<or> c = 8239 \<or> c = 8287
      \<or> c = 12288)"

definition py_strip :: "ustring \<Rightarrow> ustring" where
  "py_strip s = rev (dropWhile py_isspace (rev (dropWhile py_isspace s)))"

text \<open>
  The case mappings and the digit test read the Unicode character database, which is not
  part of the repository: the tables are a parameter of the model. \<open>tolower_full\<close> and
  \<open>totitle_full\<close> are the full mappings, which may expand one code point to several.
\<close>

record ucd =
  isdigit :: "nat \<Rightarrow> bool"
  iscased :: "nat \<Rightarrow> bool"
  iscaseignorable :: "nat \<Rightarrow> bool"
  tolower_full :: "nat \<Rightarrow> nat list"
  totitle_full :: "nat \<Rightarrow> nat list"

text \<open>
  Lower-casing one code point in its context. Capital sigma (U+03A3) becomes the final
  form U+03C2 when a cased letter precedes it and none follows, case-ignorable code
  points skipped on both sides; otherwise U+03C3. \<open>before\<close> holds the preceding code
  points, nearest first.
\<close>

definition final_sigma :: "ucd \<Rightarrow> ustring \<Rightarrow> ustring \<Rightarrow> bool" where
  "final_sigma db before after =
     ((case dropWhile (iscaseignorable db) before of [] \<Rightarrow> False | c # _ \<Rightarrow> iscased db c)
      \<and> (case dropWhile (iscaseignorable db) after of [] \<Rightarrow> True | c # _ \<Rightarrow> \<not> iscased db c))"

definition lower_ucs4 :: "ucd \<Rightarrow> ustring \<Rightarrow> nat \<Rightarrow> ustring \<Rightarrow> ustring" where
  "lower_ucs4 db before c after =
     (if c = 931 then [if final_sigma db before after then 962 else 963]
      else tolower_full db c)"

fun do_lower :: "ucd \<Rightarrow> ustring \<Rightarrow> ustring \<Rightarrow> ustring" where
  "do_lower db before [] = []"
| "do_lower db before (c # cs) = lower_ucs4 db before c cs @ do_lower db (c # before) cs"

definition py_lower :: "ucd \<Rightarrow> ustring \<Rightarrow> ustring" where
  "py_lower db s = do_lower db [] s"

text \<open>
  \<open>str.title()\<close>: a code point that follows a cased one is lower-cased, any other is
  title-cased; what counts is whether the previous code point of the input is cased.
\<close>

fun do_title :: "ucd \<Rightarrow> bool \<Rightarrow> ustring \<Rightarrow> ustring \<Rightarrow> ustring" where
  "do_title db previous_is_cased before [] = []"
| "do_title db previous_is_cased before (c # cs) =
     (if previous_is_cased then lower_ucs4 db before c cs else totitle_full db c)
     @ do_title db (iscased db c) (c # before) cs"

definition py_title :: "ucd \<Rightarrow> ustring \<Rightarrow> ustring" where
  "py_title db s = do_title db False [] s"

text \<open>
  An excerpt of the character database as CPython 3 reads it: exact on the code points
  below 128, on U+01F0 (small j with caron, whose title case is J followed by the
  combining caron) and on U+030C (combining caron). Every other code point is entered as
  uncased with identity mappings; the excerpt is only applied to strings of the code
  points it covers.
\<close>

definition ucd_excerpt :: ucd where
  "ucd_excerpt =
     \<lparr> isdigit = (\<lambda>c. 48 \<le> c \<and> c \<le> 57),
       iscased = (\<lambda>c. (65 \<le> c \<and> c \<le> 90) \<or> (97 \<le> c \<and> c \<le> 122) \<or> c = 496),
       iscaseignorable = (\<lambda>c. c = 39 \<or> c = 46 \<or> c = 58 \<or> c = 94 \<or> c = 96 \<or> c = 780),
       tolower_full = (\<lambda>c. if 65 \<le> c \<and> c \<le> 90 then [c + 32] else [c]),
       totitle_full = (\<lambda>c. if 97 \<le> c \<and> c \<le> 122 then [c - 32]
                            else if c = 496 then [74, 780] else [c]) \<rparr>"

section \<open>elt\_functions.py: field cleaners\<close>

definition clean_name :: "ucd \<Rightarrow> ustring option \<Rightarrow> ustring" where
  "clean_name db name =
     (case name of
        None \<Rightarrow> []
      | Some s \<Rightarrow> if s = [] then [] else py_title db (py_strip s))"

definition clean_email :: "ucd \<Rightarrow> ustring option \<Rightarrow> ustring" where
  "clean_email db email =
     (case email of
        None \<Rightarrow> []
      | Some s \<Rightarrow> if s = [] then [] else py_lower db (py_strip s))"

definition clean_product_name :: "ucd \<Rightarrow> ustring option \<Rightarrow> ustring" where
  "clean_product_name db product_name =
     (case product_name of
        None \<Rightarrow> []
      | Some s \<Rightarrow> if s = [] then [] else py_title db (py_strip s))"

section \<open>data\_validation\_functions.py\<close>


section \<open>data\_quality.py\<close>

text \<open>
  The values a record holds, their truth value as \<open>not v\<close> reads it, and the builtin
  types with \<open>isinstance\<close>: \<open>bool\<close> is a subclass of \<open>int\<close>.
\<close>

datatype pyval = PNone | PBool bool | PInt int | PFloat real | PStr ustring

fun truthy :: "pyval \<Rightarrow> bool" where
  "truthy PNone = False"
| "truthy (PBool b) = b"
| "truthy (PInt i) = (i \<noteq> 0)"
| "truthy (PFloat x) = (x \<noteq> 0)"
| "truthy (PStr s) = (s \<noteq> [])"

datatype pytype = NoneType | Tbool | Tint | Tfloat | Tstr

fun py_type :: "pyval \<Rightarrow> pytype" where
  "py_type PNone = NoneType"
| "py_type (PBool b) = Tbool"
| "py_type (PInt i) = Tint"
| "py_type (PFloat x) = Tfloat"
| "py_type (PStr s) = Tstr"

fun type_name :: "pytype \<Rightarrow> ustring" where
  "type_name NoneType = ustr ''NoneType''"
| "type_name Tbool = ustr ''bool''"
| "type_name Tint = ustr ''int''"
| "type_name Tfloat = ustr ''float''"
| "type_name Tstr = ustr ''str''"

definition isinstance :: "pyval \<Rightarrow> pytype \<Rightarrow> bool" where
  "isinstance v t = (py_type v = t \<or> (py_type v = Tbool \<and> t = Tint))"

text \<open>
  The condition of the loop body of \<open>check_data_completeness\<close>:
  \<open>field not in data_dict or not data_dict[field]\<close>.
\<close>

definition field_missing :: "('k \<rightharpoonup> pyval) \<Rightarrow> 'k \<Rightarrow> bool" where
  "field_missing data_dict field =
     (case data_dict field of None \<Rightarrow> True | Some v \<Rightarrow> \<not> truthy v)"

definition check_data_completeness :: "('k \<rightharpoonup> pyval) \<Rightarrow> 'k list \<Rightarrow> bool \<times> 'k list" where
  "check_data_completeness data_dict required_fields =
     (let missing_fields =
            fold (\<lambda>field acc. if field_missing data_dict field then acc @ [field] else acc)
              required_fields []
      in (length missing_fields = 0, missing_fields))"

text \<open>
  \<open>field_types\<close> is iterated in insertion order, so it is an association list of field
  names and expected types.
\<close>

definition type_error_message :: "ustring \<Rightarrow> pytype \<Rightarrow> pyval \<Rightarrow> ustring" where
  "type_error_message field expected_type v =
     field @ ustr '': expected '' @ type_name expected_type @ ustr '', got ''
       @ type_name (py_type v)"

definition validate_data_types ::
    "(ustring \<rightharpoonup> pyval) \<Rightarrow> (ustring \<times> pytype) list \<Rightarrow> bool \<times> ustring list" where
  "validate_data_types data_dict field_types =
     (let type_errors =
            fold (\<lambda>(field, expected_type) acc.
                    case data_dict field of
                      None \<Rightarrow> acc
                    | Some v \<Rightarrow>
                        if \<not> isinstance v expected_type
                        then acc @ [type_error_message field expected_type v]
                        else acc)
              field_types []
      in (length type_errors = 0, type_errors))"

section \<open>Stated shapes used by the claims\<close>

text \<open>
  The shape the docstring of \<open>check_order_id\<close> announces, \<open>ORD-YYYY-NNN\<close>: the prefix,
  four decimal digits, a hyphen, three decimal digits. The function never consults it.
\<close>

definition ascii_digit :: "nat \<Rightarrow> bool" where
  "ascii_digit c = (48 \<le> c \<and> c \<le> 57)"

definition documented_order_id_shape :: "ustring \<Rightarrow> bool" where
  "documented_order_id_shape s =
     (length s = 12 \<and> take 4 s = ustr ''ORD-'' \<and> list_all ascii_digit (take 4 (drop 4 s))
      \<and> take 1 (drop 8 s) = [45] \<and> list_all ascii_digit (drop 9 s))"



section \<open>Sample values of the string methods\<close>

text \<open>
  The string methods on inputs for which CPython 3 gives the same results: an apostrophe
  and a digit inside words, capital sigma in final and non-final position, mixed
  whitespace, and the code point whose title case expands.
\<close>

lemma py_model_samples:
  "py_title ucd_excerpt (py_strip (ustr ''o'neil mc-donald 3rd''))
     = [79, 39, 78, 101, 105, 108, 32, 77, 99, 45, 68, 111, 110, 97, 108, 100, 32, 51, 82, 100]"
  "py_lower ucd_excerpt [65, 931, 32, 931, 97] = [97, 962, 32, 963, 97]"
  "py_strip [9, 32, 120, 32, 121, 160, 10] = [120, 32, 121]"
  "py_title ucd_excerpt [496, 97] = [74, 780, 97]"
  "py_title ucd_excerpt [74, 780, 97] = [74, 780, 65]"
  by (simp_all add: py_title_def py_lower_def py_strip_def py_isspace_def ucd_excerpt_def
      lower_ucs4_def final_sigma_def ustr_def)


section \<open>Order categories\<close>

text \<open>
  C5. For every total, \<open>get_order_category\<close> returns HIGH from 1000 up, MEDIUM from 500
  up to but excluding 1000, LOW strictly between 0 and 500, and INVALID otherwise; zero and
  every negative total are INVALID, with no separate treatment of negatives;
  \<open>get_order_category(1999.98)\<close> is HIGH and \<open>get_order_category(0)\<close> is INVALID.
\<close>

theorem get_order_category_bands:
  "get_order_category t =
     (if t \<ge> 1000 then ustr ''HIGH''
      else if 500 \<le> t \<and> t < 1000 then ustr ''MEDIUM''
      else if 0 < t \<and> t < 500 then ustr ''LOW''
      else ustr ''INVALID'')
   \<and> (get_order_category t = ustr ''INVALID'') = (t \<le> 0)
   \<and> (get_order_category t = ustr ''HIGH'') = (1000 \<le> t)
   \<and> (get_order_category t = ustr ''MEDIUM'') = (500 \<le> t \<and> t < 1000)
   \<and> (get_order_category t = ustr ''LOW'') = (0 < t \<and> t < 500)
   \<and> get_order_category 1999.98 = ustr ''HIGH''
   \<and> get_order_category 0 = ustr ''INVALID''"
  by (simp add: get_order_category_def ustr_def)

section \<open>Rounding\<close>



section \<open>Order totals\<close>


section \<open>The one raised error\<close>



section \<open>Order of the checks in the validators\<close>

text \<open>
  C2, as stated, fails where both range conditions hold: with the bounds 10 and 3 the age
  5 is above the maximum, yet the answer is the first failing check, too young.
\<close>

theorem check_age_order_counterexample:
  "(3::int) < 5
   \<and> check_age (Some 5) 10 3 = (False, ustr ''Customer too young (min: 10)'')
   \<and> check_age (Some 5) 10 3 \<noteq> (False, ustr ''Age unrealistic (max: 3)'')"
  by (simp add: check_age_def py_str_int_def ustr_def)

text \<open>
  C2, amended. \<open>check_quantity\<close>, \<open>check_price\<close> and \<open>check_age\<close> test absence first and
  then the range conditions in the order written, and answer with the first that fails:
  an absent value reports missing whatever the bounds are; a quantity at most 0 reports
  must be positive, a positive one above the maximum reports too high; a price or age below
  the minimum reports too low or too young; a price or age above the maximum that is not
  also below the minimum reports too high or unrealistic; everything else is valid. Each
  call returns one message, which is \<open>Valid\<close> exactly when the verdict is true.
\<close>

theorem validators_first_failure:
  "check_quantity None m = (False, ustr ''Quantity is missing'')
   \<and> (q \<le> 0 \<longrightarrow> check_quantity (Some q) m = (False, ustr ''Quantity must be positive''))
   \<and> (0 < q \<and> m < q \<longrightarrow> check_quantity (Some q) m
         = (False, ustr ''Quantity too high (max: '' @ py_str_int m @ ustr '')''))
   \<and> (0 < q \<and> q \<le> m \<longrightarrow> check_quantity (Some q) m = (True, ustr ''Valid''))
   \<and> check_price fmt None lo hi = (False, ustr ''Price is missing'')
   \<and> (p < lo \<longrightarrow> check_price fmt (Some p) lo hi
         = (False, ustr ''Price too low (min: $'' @ fmt lo @ ustr '')''))
   \<and> (lo \<le> p \<and> hi < p \<longrightarrow> check_price fmt (Some p) lo hi
         = (False, ustr ''Price too high (max: $'' @ fmt hi @ ustr '')''))
   \<and> (lo \<le> p \<and> p \<le> hi \<longrightarrow> check_price fmt (Some p) lo hi = (True, ustr ''Valid''))
   \<and> check_age None min_age max_age = (False, ustr ''Age is missing'')
   \<and> (a < min_age \<longrightarrow> check_age (Some a) min_age max_age
         = (False, ustr ''Customer too young (min: '' @ py_str_int min_age @ ustr '')''))
   \<and> (min_age \<le> a \<and> max_age < a \<longrightarrow> check_age (Some a) min_age max_age
         = (False, ustr ''Age unrealistic (max: '' @ py_str_int max_age @ ustr '')''))
   \<and> (min_age \<le> a \<and> a \<le> max_age \<longrightarrow>
         check_age (Some a) min_age max_age = (True, ustr ''Valid''))
   \<and> fst (check_quantity quantity m) = (snd (check_quantity quantity m) = ustr ''Valid'')
   \<and> fst (check_price fmt price lo hi) = (snd (check_price fmt price lo hi) = ustr ''Valid'')
   \<and> fst (check_age age min_age max_age)
       = (snd (check_age age min_age max_age) = ustr ''Valid'')"
proof -
  have q: "fst (check_quantity quantity m) = (snd (check_quantity quantity m) = ustr ''Valid'')"
    by (cases quantity) (simp_all add: check_quantity_def ustr_def)
  have p: "fst (check_price fmt price lo hi)
      = (snd (check_price fmt price lo hi) = ustr ''Valid'')"
    by (cases price) (simp_all add: check_price_def ustr_def)
  have a: "fst (check_age age min_age max_age)
      = (snd (check_age age min_age max_age) = ustr ''Valid'')"
    by (cases age) (simp_all add: check_age_def ustr_def)
  show ?thesis
    using q p a by (simp add: check_quantity_def check_price_def check_age_def)
qed

theorem validators_first_failure_witness:
  "check_quantity (Some (- 1)) 100 = (False, ustr ''Quantity must be positive'')
   \<and> check_quantity (Some 1000) 100 = (False, ustr ''Quantity too high (max: 100)'')
   \<and> check_quantity (Some 2) 100 = (True, ustr ''Valid'')
   \<and> check_price (\<lambda>x. ustr ''0.01'') (Some (- 299.99)) 0.01 50000
       = (False, ustr ''Price too low (min: $0.01)'')
   \<and> check_price (\<lambda>x. ustr ''50000.0'') (Some 99999.99) 0.01 50000
       = (False, ustr ''Price too high (max: $50000.0)'')
   \<and> check_price (\<lambda>x. ustr ''0.01'') (Some 999.99) 0.01 50000 = (True, ustr ''Valid'')
   \<and> check_age (Some 5) 18 120 = (False, ustr ''Customer too young (min: 18)'')
   \<and> check_age (Some 200) 18 120 = (False, ustr ''Age unrealistic (max: 120)'')
   \<and> check_age (Some 28) 18 120 = (True, ustr ''Valid'')"
  using validators_first_failure
      [of 100 "- 1" "\<lambda>x. ustr ''0.01''" "0.01" 50000 "- 299.99" 18 120 5]
    validators_first_failure
      [of 100 1000 "\<lambda>x. ustr ''50000.0''" "0.01" 50000 "99999.99" 18 120 200]
    validators_first_failure
      [of 100 2 "\<lambda>x. ustr ''0.01''" "0.01" 50000 "999.99" 18 120 28]
  by (simp add: py_str_int_def ustr_def)

section \<open>Order identifiers\<close>

text \<open>
  C4. \<open>check_order_id("")\<close> is \<open>(False, "Order ID is empty")\<close> and
  \<open>check_order_id("ORD-2025-001")\<close> is \<open>(True, "Valid")\<close>; a non-empty identifier
  without the prefix \<open>ORD-\<close> is refused with the message that it must start with
  \<open>ORD-\<close>; every identifier with the prefix is accepted, among them \<open>ORD-abc\<close>, which
  does not have the documented shape \<open>ORD-YYYY-NNN\<close>.
\<close>

theorem check_order_id_prefix_only:
  "check_order_id (Some (ustr '''')) = (False, ustr ''Order ID is empty'')
   \<and> check_order_id None = (False, ustr ''Order ID is empty'')
   \<and> check_order_id (Some (ustr ''ORD-2025-001'')) = (True, ustr ''Valid'')
   \<and> (s \<noteq> [] \<and> \<not> prefix (ustr ''ORD-'') s \<longrightarrow>
        check_order_id (Some s) = (False, ustr ''Order ID must start with ORD-''))
   \<and> (prefix (ustr ''ORD-'') s \<longrightarrow> check_order_id (Some s) = (True, ustr ''Valid''))
   \<and> documented_order_id_shape (ustr ''ORD-2025-001'')
   \<and> \<not> documented_order_id_shape (ustr ''ORD-abc'')
   \<and> check_order_id (Some (ustr ''ORD-abc'')) = (True, ustr ''Valid'')"
proof -
  have e: "check_order_id (Some (ustr '''')) = (False, ustr ''Order ID is empty'')"
    "check_order_id None = (False, ustr ''Order ID is empty'')"
    by (simp_all add: check_order_id_def ustr_def)
  have a: "prefix (ustr ''ORD-'') s \<Longrightarrow> s \<noteq> []" by (auto simp: ustr_def)
  have b: "documented_order_id_shape (ustr ''ORD-2025-001'')"
    "\<not> documented_order_id_shape (ustr ''ORD-abc'')"
    by (simp_all add: documented_order_id_shape_def ascii_digit_def ustr_def)
  have c: "check_order_id (Some (ustr ''ORD-2025-001'')) = (True, ustr ''Valid'')"
    "check_order_id (Some (ustr ''ORD-abc'')) = (True, ustr ''Valid'')"
    by (simp_all add: check_order_id_def ustr_def)
  have d: "s \<noteq> [] \<and> \<not> prefix (ustr ''ORD-'') s \<longrightarrow>
        check_order_id (Some s) = (False, ustr ''Order ID must start with ORD-'')"
    by (simp add: check_order_id_def)
  have f: "prefix (ustr ''ORD-'') s \<longrightarrow> check_order_id (Some s) = (True, ustr ''Valid'')"
    using a by (simp add: check_order_id_def)
  from e b c d f show ?thesis by blast
qed

theorem check_order_id_prefix_only_witness:
  "check_order_id (Some (ustr ''2025-001'')) = (False, ustr ''Order ID must start with ORD-'')
   \<and> check_order_id (Some (ustr ''ORD-'')) = (True, ustr ''Valid'')"
  using check_order_id_prefix_only [of "ustr ''2025-001''"]
    check_order_id_prefix_only [of "ustr ''ORD-''"]
  by (simp add: ustr_def)

section \<open>Loops that collect into a list\<close>

lemma fold_append_filter:
  "fold (\<lambda>x acc. if P x then acc @ [x] else acc) xs acc = acc @ filter P xs"
  by (induction xs arbitrary: acc) simp_all

lemma snd_check_data_completeness:
  "snd (check_data_completeness d rf) = filter (field_missing d) rf"
  by (simp add: check_data_completeness_def Let_def fold_append_filter)

lemma fst_check_data_completeness:
  "fst (check_data_completeness d rf) = (filter (field_missing d) rf = [])"
  by (simp add: check_data_completeness_def Let_def fold_append_filter)

lemma field_missing_iff:
  "field_missing d f = (\<not> (\<exists>v. d f = Some v \<and> truthy v))"
  by (simp add: field_missing_def split: option.splits)

section \<open>Completeness of a record\<close>

text \<open>
  C7. \<open>check_data_completeness\<close> returns \<open>(True, [])\<close> exactly when every required
  field is in the record with a truthy value. A field is missing when it is not in the
  record or its value is falsy (\<open>None\<close>, the empty string, zero, \<open>False\<close>); the missing
  fields are returned in the order of \<open>required_fields\<close>. For the record with name John,
  an empty email and age 30 the answer is \<open>(False, ["email"])\<close>.
\<close>

theorem check_data_completeness_spec:
  "snd (check_data_completeness d rf) = filter (field_missing d) rf
   \<and> fst (check_data_completeness d rf) = (snd (check_data_completeness d rf) = [])
   \<and> (check_data_completeness d rf = (True, [])) = (\<forall>f \<in> set rf. \<exists>v. d f = Some v \<and> truthy v)
   \<and> field_missing d f
       = (d f = None \<or> d f = Some PNone \<or> d f = Some (PStr []) \<or> d f = Some (PInt 0)
          \<or> d f = Some (PFloat 0) \<or> d f = Some (PBool False))
   \<and> check_data_completeness
        (map_of [(ustr ''name'', PStr (ustr ''John'')), (ustr ''email'', PStr (ustr '''')),
                 (ustr ''age'', PInt 30)])
        [ustr ''name'', ustr ''email'', ustr ''age'']
       = (False, [ustr ''email''])"
proof -
  have a: "snd (check_data_completeness d rf) = filter (field_missing d) rf"
    by (rule snd_check_data_completeness)
  have b: "fst (check_data_completeness d rf) = (snd (check_data_completeness d rf) = [])"
    by (simp add: fst_check_data_completeness snd_check_data_completeness)
  have c: "(check_data_completeness d rf = (True, []))
      = (\<forall>f \<in> set rf. \<exists>v. d f = Some v \<and> truthy v)"
    by (simp add: prod_eq_iff fst_check_data_completeness snd_check_data_completeness
        filter_empty_conv field_missing_iff)
  have e: "field_missing d f
       = (d f = None \<or> d f = Some PNone \<or> d f = Some (PStr []) \<or> d f = Some (PInt 0)
          \<or> d f = Some (PFloat 0) \<or> d f = Some (PBool False))"
  proof (cases "d f")
    case None
    then show ?thesis by (simp add: field_missing_def)
  next
    case (Some v)
    then show ?thesis by (cases v) (auto simp: field_missing_def)
  qed
  have g: "check_data_completeness
        (map_of [(ustr ''name'', PStr (ustr ''John'')), (ustr ''email'', PStr (ustr '''')),
                 (ustr ''age'', PInt 30)])
        [ustr ''name'', ustr ''email'', ustr ''age'']
       = (False, [ustr ''email''])"
    by (simp add: check_data_completeness_def field_missing_def ustr_def)
  from a b c e g show ?thesis by blast
qed

theorem check_data_completeness_spec_witness:
  "check_data_completeness
     (map_of [(ustr ''name'', PStr (ustr ''John'')), (ustr ''email'', PStr (ustr ''john@test.com'')),
              (ustr ''age'', PInt 30)])
     [ustr ''name'', ustr ''email'', ustr ''age'']
   = (True, [])"
proof -
  let ?d = "map_of [(ustr ''name'', PStr (ustr ''John'')),
              (ustr ''email'', PStr (ustr ''john@test.com'')), (ustr ''age'', PInt 30)]"
  let ?rf = "[ustr ''name'', ustr ''email'', ustr ''age'']"
  have "\<forall>f \<in> set ?rf. \<exists>v. ?d f = Some v \<and> truthy v"
    by (simp add: ustr_def)
  with check_data_completeness_spec [of ?d ?rf] show ?thesis by blast
qed

section \<open>Types of a record's values\<close>

lemma validate_fold:
  "fold (\<lambda>(field, expected_type) acc.
            case d field of None \<Rightarrow> acc
            | Some v \<Rightarrow> if \<not> isinstance v expected_type
                        then acc @ [type_error_message field expected_type v] else acc)
     ft acc
   = acc @ concat (map (\<lambda>(f, t). case d f of None \<Rightarrow> []
                 | Some v \<Rightarrow> if isinstance v t then [] else [type_error_message f t v]) ft)"
  by (induction ft arbitrary: acc) (auto split: option.splits)

lemma snd_validate_data_types:
  "snd (validate_data_types d ft)
   = concat (map (\<lambda>(f, t). case d f of None \<Rightarrow> []
                 | Some v \<Rightarrow> if isinstance v t then [] else [type_error_message f t v]) ft)"
  by (simp add: validate_data_types_def Let_def validate_fold)

lemma fst_validate_data_types:
  "fst (validate_data_types d ft) = (snd (validate_data_types d ft) = [])"
  by (simp add: validate_data_types_def Let_def)

text \<open>
  C8. \<open>validate_data_types\<close> looks only at the fields of \<open>field_types\<close> that the
  record holds: dropping the entries whose field is absent changes nothing. It returns
  \<open>(True, [])\<close> exactly when every such field's value is an instance of its expected
  type, and otherwise \<open>False\<close> with one message per mismatched field, in order; for the
  record with age \<open>"thirty"\<close> and the expected type \<open>int\<close> the one message is
  \<open>age: expected int, got str\<close>.
\<close>

theorem validate_data_types_spec:
  "snd (validate_data_types d ft)
     = concat (map (\<lambda>(f, t). case d f of None \<Rightarrow> []
                 | Some v \<Rightarrow> if isinstance v t then [] else [type_error_message f t v]) ft)
   \<and> fst (validate_data_types d ft) = (snd (validate_data_types d ft) = [])
   \<and> (validate_data_types d ft = (True, []))
       = (\<forall>(f, t) \<in> set ft. \<forall>v. d f = Some v \<longrightarrow> isinstance v t)
   \<and> validate_data_types d ft = validate_data_types d (filter (\<lambda>(f, t). d f \<noteq> None) ft)
   \<and> length (snd (validate_data_types d ft))
       = length (filter (\<lambda>(f, t). \<exists>v. d f = Some v \<and> \<not> isinstance v t) ft)
   \<and> validate_data_types (map_of [(ustr ''age'', PStr (ustr ''thirty''))]) [(ustr ''age'', Tint)]
       = (False, [ustr ''age: expected int, got str''])"
proof -
  have a: "snd (validate_data_types d ft)
     = concat (map (\<lambda>(f, t). case d f of None \<Rightarrow> []
                 | Some v \<Rightarrow> if isinstance v t then [] else [type_error_message f t v]) ft)"
    by (rule snd_validate_data_types)
  have b: "fst (validate_data_types d ft) = (snd (validate_data_types d ft) = [])"
    by (rule fst_validate_data_types)
  have c: "(validate_data_types d ft = (True, []))
       = (\<forall>(f, t) \<in> set ft. \<forall>v. d f = Some v \<longrightarrow> isinstance v t)"
    unfolding prod_eq_iff fst_validate_data_types snd_validate_data_types
    by (induction ft) (auto split: option.splits if_splits)
  have s: "snd (validate_data_types d ft)
      = snd (validate_data_types d (filter (\<lambda>(f, t). d f \<noteq> None) ft))"
    unfolding snd_validate_data_types
    by (induction ft) (auto split: option.splits)
  have e: "validate_data_types d ft = validate_data_types d (filter (\<lambda>(f, t). d f \<noteq> None) ft)"
    using s by (simp add: prod_eq_iff fst_validate_data_types)
  have f: "length (snd (validate_data_types d ft))
       = length (filter (\<lambda>(f, t). \<exists>v. d f = Some v \<and> \<not> isinstance v t) ft)"
    unfolding snd_validate_data_types
    by (induction ft) (auto split: option.splits)
  have g: "validate_data_types (map_of [(ustr ''age'', PStr (ustr ''thirty''))]) [(ustr ''age'', Tint)]
       = (False, [ustr ''age: expected int, got str''])"
    by (simp add: validate_data_types_def isinstance_def type_error_message_def ustr_def)
  from a b c e f g show ?thesis by blast
qed

theorem validate_data_types_spec_witness:
  "validate_data_types
     (map_of [(ustr ''name'', PStr (ustr ''John'')), (ustr ''age'', PInt 30)])
     [(ustr ''name'', Tstr), (ustr ''age'', Tint), (ustr ''salary'', Tfloat)]
   = (True, [])"
proof -
  let ?d = "map_of [(ustr ''name'', PStr (ustr ''John'')), (ustr ''age'', PInt 30)]"
  let ?ft = "[(ustr ''name'', Tstr), (ustr ''age'', Tint), (ustr ''salary'', Tfloat)]"
  have "\<forall>(f, t) \<in> set ?ft. \<forall>v. ?d f = Some v \<longrightarrow> isinstance v t"
    by (simp add: ustr_def isinstance_def)
  with validate_data_types_spec [of ?d ?ft] show ?thesis by blast
qed

section \<open>Phone numbers\<close>



section \<open>Stripping whitespace\<close>

lemma py_strip_all_space: "list_all py_isspace s \<Longrightarrow> py_strip s = []"
proof -
  assume "list_all py_isspace s"
  then have d: "dropWhile py_isspace s = []" by (simp add: list_all_iff)
  show ?thesis unfolding py_strip_def d by simp
qed





section \<open>Case mappings on code points with simple mappings\<close>










lemma py_title_Nil: "py_title db [] = []" by (simp add: py_title_def)
lemma py_lower_Nil: "py_lower db [] = []" by (simp add: py_lower_def)


section \<open>Cleaning whitespace-only input\<close>

text \<open>
  C9. On a string made only of whitespace characters, on the empty string and on
  \<open>None\<close>, \<open>clean_name\<close>, \<open>clean_email\<close> and \<open>clean_product_name\<close> all return the
  empty string, whatever the case tables are.
\<close>

theorem cleaners_collapse_whitespace:
  "(list_all py_isspace s \<longrightarrow>
      clean_name db (Some s) = [] \<and> clean_email db (Some s) = []
      \<and> clean_product_name db (Some s) = [])
   \<and> clean_name db (Some []) = [] \<and> clean_email db (Some []) = []
   \<and> clean_product_name db (Some []) = []
   \<and> clean_name db None = [] \<and> clean_email db None = [] \<and> clean_product_name db None = []"
  by (simp add: clean_name_def clean_email_def clean_product_name_def py_strip_all_space
      py_title_Nil py_lower_Nil)

theorem cleaners_collapse_whitespace_witness:
  "clean_name ucd_excerpt (Some [32, 9, 160, 8195, 10]) = []
   \<and> clean_email ucd_excerpt (Some [32, 9, 160, 8195, 10]) = []
   \<and> clean_product_name ucd_excerpt (Some [32, 9, 160, 8195, 10]) = []"
proof -
  have "list_all py_isspace [32, 9, 160, 8195, 10]" by (simp add: py_isspace_def)
  with cleaners_collapse_whitespace [of "[32, 9, 160, 8195, 10]" ucd_excerpt]
  show ?thesis by blast
qed

section \<open>Cleaning twice\<close>








end
